theory Spec2Isabelle
  imports Complex_Main "HOL-Library.Multiset"
begin

section \<open>The basket optimizer of \<^verbatim>\<open>basket_optimizer_app.py\<close>\<close>

text \<open>
  The function verified here is \<^verbatim>\<open>optimize_basket(product_list, price_matrix,
  only_complete, penalty_method)\<close>. It reads a pandas data frame whose index holds product
  names, whose columns are supermarkets and whose cells are prices or NaN.

  Modelling decisions:
  \<^item> a price is a Python float; it is modelled as an exact \<open>real\<close>, and NaN (a cell without a
    price, an aggregate over nothing) as \<open>None\<close>;
  \<^item> the data frame is its list of column labels and its list of rows, a row being its index
    label and its cells by column label; row labels may repeat, as a pandas index may, and
    column labels are meant unique, as \<^verbatim>\<open>read_csv\<close> makes them;
  \<^item> \<^verbatim>\<open>sort_values\<close> is pandas code, modelled by what the call promises;
  \<^item> \<^verbatim>\<open>len(...)\<close> and their difference are Python integers, hence \<open>int\<close>;
  \<^item> a Python dict keeps insertion order and overwrites in place: an association list
    updated by \<open>dict_set\<close>;
  \<^item> \<^verbatim>\<open>penalty_method\<close> is a Python string.
\<close>

subsection \<open>Data\<close>

type_synonym row = "string \<times> (string \<Rightarrow> real option)"

record price_matrix =
  columns :: "string list"
  rows :: "row list"

text \<open>The value stored under each supermarket in \<^verbatim>\<open>supermarket_details\<close>.\<close>

record details =
  total :: "real option"
  available_products :: int
  missing_products :: int
  products :: "(string \<times> real) list"
  has_penalty :: bool

text \<open>A row of \<^verbatim>\<open>results_df\<close>.\<close>

record result_row =
  supermarket :: string
  total_price :: "real option"
  row_available_products :: int
  row_missing_products :: int

subsection \<open>Python dicts\<close>

fun dict_set :: "'k \<Rightarrow> 'v \<Rightarrow> ('k \<times> 'v) list \<Rightarrow> ('k \<times> 'v) list" where
  "dict_set k v [] = [(k, v)]"
| "dict_set k v ((k', v') # d) =
     (if k' = k then (k, v) # d else (k', v') # dict_set k v d)"

text \<open>\<^verbatim>\<open>Series.to_dict()\<close>: one key per index label, a later row overwriting an earlier one.\<close>

definition to_dict :: "(string \<times> real) list \<Rightarrow> (string \<times> real) list" where
  "to_dict s = foldl (\<lambda>d (k, v). dict_set k v d) [] s"

subsection \<open>The pandas operations used\<close>

text \<open>\<^verbatim>\<open>price_matrix.loc[price_matrix.index.isin(product_list)]\<close>: the rows whose label is
  in the list, in the order of the frame.\<close>

definition selected_products :: "string list \<Rightarrow> price_matrix \<Rightarrow> row list" where
  "selected_products product_list m = filter (\<lambda>r. fst r \<in> set product_list) (rows m)"

text \<open>\<^verbatim>\<open>frame[supermarket]\<close>: the cells of one column, and \<^verbatim>\<open>.dropna()\<close>: the labelled
  cells that hold a price.\<close>

definition column :: "row list \<Rightarrow> string \<Rightarrow> real option list" where
  "column frame sm = map (\<lambda>r. snd r sm) frame"

definition dropna :: "row list \<Rightarrow> string \<Rightarrow> (string \<times> real) list" where
  "dropna frame sm = List.map_filter (\<lambda>r. map_option (Pair (fst r)) (snd r sm)) frame"

text \<open>\<^verbatim>\<open>.mean()\<close> and \<^verbatim>\<open>.max()\<close> skip NaN and give NaN when nothing is left.\<close>

definition skipna :: "real option list \<Rightarrow> real list" where
  "skipna cs = List.map_filter id cs"

definition mean_skipna :: "real option list \<Rightarrow> real option" where
  "mean_skipna cs =
     (let vs = skipna cs in if vs = [] then None else Some (sum_list vs / real (length vs)))"

definition max_skipna :: "real option list \<Rightarrow> real option" where
  "max_skipna cs = (case skipna cs of [] \<Rightarrow> None | v # vs \<Rightarrow> Some (fold max vs v))"

text \<open>\<^verbatim>\<open>frame.mean().mean()\<close>: the mean of every column, then the mean of those means.\<close>

definition frame_mean_mean :: "string list \<Rightarrow> row list \<Rightarrow> real option" where
  "frame_mean_mean cols frame = mean_skipna (map (\<lambda>sm. mean_skipna (column frame sm)) cols)"

definition frame_max_max :: "string list \<Rightarrow> row list \<Rightarrow> real option" where
  "frame_max_max cols frame = max_skipna (map (\<lambda>sm. max_skipna (column frame sm)) cols)"

definition avg_product_price :: "string list \<Rightarrow> price_matrix \<Rightarrow> real option" where
  "avg_product_price product_list m =
     frame_mean_mean (columns m) (selected_products product_list m)"

definition max_price :: "string list \<Rightarrow> price_matrix \<Rightarrow> real option" where
  "max_price product_list m =
     frame_max_max (columns m) (selected_products product_list m)"

text \<open>\<^verbatim>\<open>total += missing_count * penalty\<close> on floats: NaN when the penalty is NaN.\<close>

definition add_penalty :: "real \<Rightarrow> int \<Rightarrow> real option \<Rightarrow> real option" where
  "add_penalty t missing_count penalty =
     (case penalty of None \<Rightarrow> None | Some p \<Rightarrow> Some (t + real_of_int missing_count * p))"

subsection \<open>The loop of \<^verbatim>\<open>optimize_basket\<close>\<close>

definition prices :: "string list \<Rightarrow> price_matrix \<Rightarrow> string \<Rightarrow> (string \<times> real) list" where
  "prices product_list m sm = dropna (selected_products product_list m) sm"

definition missing_count :: "string list \<Rightarrow> price_matrix \<Rightarrow> string \<Rightarrow> int" where
  "missing_count product_list m sm =
     int (length product_list) - int (length (prices product_list m sm))"

text \<open>Lines 94 to 101: \<^verbatim>\<open>total = prices.sum()\<close>, then the penalty for the missing
  products. \<^verbatim>\<open>avg_product_price\<close> was computed before the loop, \<^verbatim>\<open>max_price\<close> is
  computed in the branch; both depend on the arguments only.\<close>

definition entry_total :: "string list \<Rightarrow> price_matrix \<Rightarrow> string \<Rightarrow> string \<Rightarrow> real option" where
  "entry_total product_list m penalty_method sm =
     (let t = sum_list (map snd (prices product_list m sm));
          mc = missing_count product_list m sm
      in if mc > 0 \<and> penalty_method = ''average''
           then add_penalty t mc (avg_product_price product_list m)
         else if mc > 0 \<and> penalty_method = ''highest''
           then add_penalty t mc (max_price product_list m)
         else Some t)"

text \<open>One pass of the loop body: \<open>None\<close> when the supermarket is skipped, otherwise the
  record stored under its name.\<close>

definition market_entry ::
  "string list \<Rightarrow> price_matrix \<Rightarrow> bool \<Rightarrow> string \<Rightarrow> string \<Rightarrow> details option" where
  "market_entry product_list m only_complete penalty_method sm =
     (let ps = prices product_list m sm;
          mc = missing_count product_list m sm
      in if only_complete \<and> mc > 0 then None
         else if length ps > 0 then
           Some \<lparr> total = entry_total product_list m penalty_method sm,
                  available_products = int (length ps),
                  missing_products = mc,
                  products = to_dict ps,
                  has_penalty = (mc > 0 \<and> penalty_method \<noteq> ''exclude'') \<rparr>
         else None)"

text \<open>The effect of one pass on the dict: \<^verbatim>\<open>supermarket_details[supermarket] = {...}\<close>
  unless the pass is skipped.\<close>

definition loop_step ::
  "string list \<Rightarrow> price_matrix \<Rightarrow> bool \<Rightarrow> string \<Rightarrow>
   (string \<times> details) list \<Rightarrow> string \<Rightarrow> (string \<times> details) list" where
  "loop_step product_list m only_complete penalty_method d sm =
     (case market_entry product_list m only_complete penalty_method sm of
        None \<Rightarrow> d
      | Some e \<Rightarrow> dict_set sm e d)"

text \<open>\<^verbatim>\<open>for supermarket in selected_products.columns\<close>, from the empty dict.\<close>

definition supermarket_details ::
  "string list \<Rightarrow> price_matrix \<Rightarrow> bool \<Rightarrow> string \<Rightarrow> (string \<times> details) list" where
  "supermarket_details product_list m only_complete penalty_method =
     foldl (loop_step product_list m only_complete penalty_method) [] (columns m)"

text \<open>The list of dicts the data frame \<^verbatim>\<open>results_df\<close> is built from.\<close>

definition results_rows ::
  "string list \<Rightarrow> price_matrix \<Rightarrow> bool \<Rightarrow> string \<Rightarrow> result_row list" where
  "results_rows product_list m only_complete penalty_method =
     map (\<lambda>(sm, e). \<lparr> supermarket = sm, total_price = total e,
                      row_available_products = available_products e,
                      row_missing_products = missing_products e \<rparr>)
       (supermarket_details product_list m only_complete penalty_method)"

subsection \<open>Sorting the frame\<close>

text \<open>
  \<^verbatim>\<open>results_df.sort_values('total_price')\<close> is called with its defaults: ascending, NaN
  last, and \<^verbatim>\<open>kind='quicksort'\<close>. pandas documents that kind as not stable, so the call
  fixes its result only up to the order of rows with equal keys. The model therefore says
  which frames the call may return: the rearrangements of the input that are in order.
\<close>

definition nan_last_le :: "real option \<Rightarrow> real option \<Rightarrow> bool" where
  "nan_last_le a b =
     (case b of None \<Rightarrow> True | Some y \<Rightarrow> (case a of None \<Rightarrow> False | Some x \<Rightarrow> x \<le> y))"

definition sort_values_returns :: "result_row list \<Rightarrow> result_row list \<Rightarrow> bool" where
  "sort_values_returns df out =
     (mset out = mset df \<and>
      sorted_wrt (\<lambda>r s. nan_last_le (total_price r) (total_price s)) out)"

text \<open>The return value of \<^verbatim>\<open>optimize_basket\<close>: the frame, sorted when it has a row, and
  the dict.\<close>

definition optimize_basket_returns ::
  "string list \<Rightarrow> price_matrix \<Rightarrow> bool \<Rightarrow> string \<Rightarrow>
   result_row list \<times> (string \<times> details) list \<Rightarrow> bool" where
  "optimize_basket_returns product_list m only_complete penalty_method out =
     (let results_df = results_rows product_list m only_complete penalty_method
      in snd out = supermarket_details product_list m only_complete penalty_method \<and>
         (if length results_df > 0 then sort_values_returns results_df (fst out)
          else fst out = results_df))"

text \<open>The worked example of the specification:
  Milk costs 1.00 at A and 1.20 at B, Bread costs 2.00 at A and is not sold at B.\<close>

definition example_matrix :: price_matrix where
  "example_matrix =
     \<lparr> columns = [''A'', ''B''],
       rows = [(''Milk'', [''A'' \<mapsto> 1, ''B'' \<mapsto> 6 / 5]),
               (''Bread'', [''A'' \<mapsto> 2])] \<rparr>"


subsection \<open>Quantities the specification speaks of\<close>

text \<open>The prices a supermarket has among the selected rows, and every price of the
  selected rows, supermarket after supermarket.\<close>

definition column_prices :: "string list \<Rightarrow> price_matrix \<Rightarrow> string \<Rightarrow> real list" where
  "column_prices product_list m sm = map snd (prices product_list m sm)"

definition selected_cells :: "string list \<Rightarrow> price_matrix \<Rightarrow> real list" where
  "selected_cells product_list m = concat (map (column_prices product_list m) (columns m))"

text \<open>The specification's penalty base for \<^verbatim>\<open>average\<close>: the arithmetic mean over every
  defined cell of the selected rows, flattened across products and supermarkets.\<close>

definition flattened_mean :: "string list \<Rightarrow> price_matrix \<Rightarrow> real" where
  "flattened_mean product_list m =
     sum_list (selected_cells product_list m) / real (length (selected_cells product_list m))"

text \<open>The supermarkets with at least one price among the selected rows, and the mean of
  their own means.\<close>

definition markets_with_data :: "string list \<Rightarrow> price_matrix \<Rightarrow> string list" where
  "markets_with_data product_list m =
     filter (\<lambda>sm. column_prices product_list m sm \<noteq> []) (columns m)"

definition column_mean :: "string list \<Rightarrow> price_matrix \<Rightarrow> string \<Rightarrow> real" where
  "column_mean product_list m sm =
     sum_list (column_prices product_list m sm) / real (length (column_prices product_list m sm))"

definition mean_of_column_means :: "string list \<Rightarrow> price_matrix \<Rightarrow> real" where
  "mean_of_column_means product_list m =
     sum_list (map (column_mean product_list m) (markets_with_data product_list m))
       / real (length (markets_with_data product_list m))"

text \<open>A second matrix: Milk costs 1.00 at both supermarkets, Eggs is listed and sold
  nowhere.\<close>

definition tie_matrix :: price_matrix where
  "tie_matrix =
     \<lparr> columns = [''A'', ''B''],
       rows = [(''Milk'', [''A'' \<mapsto> 1, ''B'' \<mapsto> 1]),
               (''Eggs'', Map.empty)] \<rparr>"

text \<open>The invariant of the specification's price matrix: a cell is absent or a price that
  is not negative.\<close>

definition nonneg_prices :: "price_matrix \<Rightarrow> bool" where
  "nonneg_prices m =
     (\<forall>r \<in> set (rows m). \<forall>sm \<in> set (columns m).
        case snd r sm of None \<Rightarrow> True | Some v \<Rightarrow> 0 \<le> v)"

section \<open>Python dicts and the loop\<close>

lemma map_of_dict_set: "map_of (dict_set k v d) = (map_of d)(k \<mapsto> v)"
  by (induction d) (auto simp: fun_eq_iff)

lemma keys_dict_set: "fst ` set (dict_set k v d) = insert k (fst ` set d)"
proof (induction d)
  case Nil
  show ?case by simp
next
  case (Cons a d)
  obtain k' v' where a: "a = (k', v')" by (cases a)
  show ?case
  proof (cases "k' = k")
    case True
    then show ?thesis using a by simp
  next
    case False
    then show ?thesis using a Cons.IH by (simp add: insert_commute)
  qed
qed

lemma distinct_dict_set: "distinct (map fst d) \<Longrightarrow> distinct (map fst (dict_set k v d))"
proof (induction d)
  case Nil
  then show ?case by simp
next
  case (Cons a d)
  obtain k' v' where a: "a = (k', v')" by (cases a)
  show ?case
  proof (cases "k' = k")
    case True
    with Cons.prems a show ?thesis by simp
  next
    case False
    have "k' \<notin> fst ` set (dict_set k v d)"
      using Cons.prems a False by (simp add: keys_dict_set)
    with Cons a False show ?thesis by simp
  qed
qed

lemma dict_set_fresh: "k \<notin> fst ` set d \<Longrightarrow> dict_set k v d = d @ [(k, v)]"
  by (induction d) auto

lemma loop_step_None:
  "market_entry pl m oc pm sm = None \<Longrightarrow> loop_step pl m oc pm d sm = d"
  by (simp add: loop_step_def)

lemma loop_step_Some:
  "market_entry pl m oc pm sm = Some e \<Longrightarrow> loop_step pl m oc pm d sm = dict_set sm e d"
  by (simp add: loop_step_def)

lemma loop_distinct:
  "distinct (map fst d) \<Longrightarrow> distinct (map fst (foldl (loop_step pl m oc pm) d cols))"
proof (induction cols arbitrary: d)
  case Nil
  then show ?case by simp
next
  case (Cons c cols)
  have "distinct (map fst (loop_step pl m oc pm d c))"
    using Cons.prems
    by (cases "market_entry pl m oc pm c") (simp_all add: loop_step_None loop_step_Some distinct_dict_set)
  then show ?case using Cons.IH by simp
qed

lemma loop_map_of:
  "map_of (foldl (loop_step pl m oc pm) d cols) sm =
     (if sm \<in> set cols \<and> market_entry pl m oc pm sm \<noteq> None
      then market_entry pl m oc pm sm else map_of d sm)"
proof (induction cols arbitrary: d)
  case Nil
  then show ?case by simp
next
  case (Cons c cols)
  show ?case
    by (cases "market_entry pl m oc pm c")
       (auto simp: Cons.IH loop_step_None loop_step_Some map_of_dict_set)
qed

lemma details_iff:
  "(sm, e) \<in> set (supermarket_details pl m oc pm) \<longleftrightarrow>
     sm \<in> set (columns m) \<and> market_entry pl m oc pm sm = Some e"
proof -
  have dist: "distinct (map fst (supermarket_details pl m oc pm))"
    unfolding supermarket_details_def by (rule loop_distinct) simp
  have "(sm, e) \<in> set (supermarket_details pl m oc pm) \<longleftrightarrow>
          map_of (supermarket_details pl m oc pm) sm = Some e"
    using dist by simp
  also have "\<dots> \<longleftrightarrow> sm \<in> set (columns m) \<and> market_entry pl m oc pm sm = Some e"
    unfolding supermarket_details_def loop_map_of by auto
  finally show ?thesis .
qed

lemma loop_fresh:
  "distinct cols \<Longrightarrow> set cols \<inter> fst ` set d = {} \<Longrightarrow>
   foldl (loop_step pl m oc pm) d cols =
     d @ List.map_filter (\<lambda>sm. map_option (Pair sm) (market_entry pl m oc pm sm)) cols"
proof (induction cols arbitrary: d)
  case Nil
  then show ?case by (simp add: List.map_filter_simps)
next
  case (Cons c cols)
  show ?case
  proof (cases "market_entry pl m oc pm c")
    case None
    with Cons show ?thesis by (simp add: loop_step_None List.map_filter_simps)
  next
    case (Some e)
    have fresh: "c \<notin> fst ` set d" using Cons.prems by auto
    have step: "loop_step pl m oc pm d c = d @ [(c, e)]"
      using Some fresh by (simp add: loop_step_Some dict_set_fresh)
    have "set cols \<inter> fst ` set (d @ [(c, e)]) = {}"
      using Cons.prems by auto
    with Cons.IH[of "d @ [(c, e)]"] Cons.prems Some step show ?thesis
      by (simp add: List.map_filter_simps)
  qed
qed

lemma details_distinct_columns:
  "distinct (columns m) \<Longrightarrow>
   supermarket_details pl m oc pm =
     List.map_filter (\<lambda>sm. map_option (Pair sm) (market_entry pl m oc pm sm)) (columns m)"
  unfolding supermarket_details_def using loop_fresh[of "columns m" "[]"] by simp

lemma skipna_column: "skipna (column frame sm) = map snd (dropna frame sm)"
  by (induction frame) (auto simp: skipna_def column_def dropna_def List.map_filter_simps split: option.splits)

section \<open>The aggregates\<close>

lemma mean_skipna_column:
  "mean_skipna (column (selected_products pl m) sm) =
     (if column_prices pl m sm = [] then None else Some (column_mean pl m sm))"
  by (simp add: mean_skipna_def skipna_column column_prices_def prices_def column_mean_def Let_def)

lemma skipna_map_if:
  "skipna (map (\<lambda>x. if P x then None else Some (f x)) xs) = map f (filter (\<lambda>x. \<not> P x) xs)"
  by (induction xs) (simp_all add: skipna_def List.map_filter_simps)

lemma avg_product_price_eq:
  "avg_product_price pl m =
     (if markets_with_data pl m = [] then None else Some (mean_of_column_means pl m))"
  by (simp add: avg_product_price_def frame_mean_mean_def mean_skipna_column
        mean_skipna_def[of "map f xs" for f xs] skipna_map_if Let_def
        markets_with_data_def mean_of_column_means_def)

lemma fold_max_Max: "fold max vs (v::real) = Max (set (v # vs))"
  by (simp only: Max.set_eq_fold)

lemma max_skipna_eq:
  "max_skipna cs = (if skipna cs = [] then None else Some (Max (set (skipna cs))))"
  by (simp add: max_skipna_def fold_max_Max split: list.splits)

lemma max_skipna_column:
  "max_skipna (column (selected_products pl m) sm) =
     (if column_prices pl m sm = [] then None else Some (Max (set (column_prices pl m sm))))"
  by (simp add: max_skipna_eq skipna_column column_prices_def prices_def)

lemma selected_cells_empty_iff: "selected_cells pl m = [] \<longleftrightarrow> markets_with_data pl m = []"
  by (auto simp: selected_cells_def markets_with_data_def filter_empty_conv)

lemma Max_column_maxes:
  assumes "markets_with_data pl m \<noteq> []"
  shows "Max (set (map (\<lambda>sm. Max (set (column_prices pl m sm))) (markets_with_data pl m)))
           = Max (set (selected_cells pl m))"
proof -
  let ?A = "set (map (\<lambda>sm. Max (set (column_prices pl m sm))) (markets_with_data pl m))"
  let ?B = "set (selected_cells pl m)"
  have neA: "?A \<noteq> {}" using assms by simp
  have "Max ?A \<in> ?A" using neA by (intro Max_in) simp_all
  then obtain sm where sm: "sm \<in> set (markets_with_data pl m)"
    and mA: "Max ?A = Max (set (column_prices pl m sm))" by auto
  have smc: "sm \<in> set (columns m)" and ne: "column_prices pl m sm \<noteq> []"
    using sm by (simp_all add: markets_with_data_def)
  have "Max (set (column_prices pl m sm)) \<in> set (column_prices pl m sm)"
    using ne by (intro Max_in) simp_all
  then have inB: "Max ?A \<in> ?B" using smc mA by (auto simp: selected_cells_def)
  have ub: "y \<le> Max ?A" if "y \<in> ?B" for y
  proof -
    from that obtain c where c: "c \<in> set (columns m)" and y: "y \<in> set (column_prices pl m c)"
      by (auto simp: selected_cells_def)
    then have cm: "c \<in> set (markets_with_data pl m)"
      by (auto simp: markets_with_data_def)
    have "y \<le> Max (set (column_prices pl m c))" using y by simp
    also have "\<dots> \<le> Max ?A" using cm by (intro Max_ge) auto
    finally show ?thesis .
  qed
  show ?thesis by (rule sym, rule Max_eqI) (use inB ub in auto)
qed

lemma max_price_eq:
  "max_price pl m =
     (if markets_with_data pl m = [] then None else Some (Max (set (selected_cells pl m))))"
proof -
  have sk: "skipna (map (\<lambda>sm. max_skipna (column (selected_products pl m) sm)) (columns m))
          = map (\<lambda>sm. Max (set (column_prices pl m sm))) (markets_with_data pl m)"
    by (simp add: max_skipna_column skipna_map_if markets_with_data_def)
  let ?L = "map (\<lambda>sm. max_skipna (column (selected_products pl m) sm)) (columns m)"
  have "max_price pl m = max_skipna ?L"
    by (simp add: max_price_def frame_max_max_def)
  also have "\<dots> = (if skipna ?L = [] then None else Some (Max (set (skipna ?L))))"
    by (rule max_skipna_eq)
  also have "\<dots> = (if markets_with_data pl m = [] then None
      else Some (Max (set (map (\<lambda>sm. Max (set (column_prices pl m sm))) (markets_with_data pl m)))))"
    unfolding sk by simp
  also have "\<dots> = (if markets_with_data pl m = [] then None
      else Some (Max (set (selected_cells pl m))))"
    using Max_column_maxes[of pl m] by simp
  finally show ?thesis .
qed

section \<open>What one pass of the loop records\<close>

lemma market_entry_SomeD:
  assumes "market_entry pl m oc pm sm = Some e"
  shows "column_prices pl m sm \<noteq> []"
    and "\<not> (oc \<and> missing_count pl m sm > 0)"
    and "missing_products e = missing_count pl m sm"
    and "available_products e = int (length (column_prices pl m sm))"
    and "products e = to_dict (prices pl m sm)"
    and "has_penalty e = (missing_count pl m sm > 0 \<and> pm \<noteq> ''exclude'')"
    and "total e = entry_total pl m pm sm"
  using assms unfolding market_entry_def column_prices_def Let_def
  by (auto split: if_splits)

lemma market_entry_Some_iff:
  "(\<exists>e. market_entry pl m oc pm sm = Some e) \<longleftrightarrow>
     column_prices pl m sm \<noteq> [] \<and> \<not> (oc \<and> missing_count pl m sm > 0)"
  by (auto simp: market_entry_def column_prices_def Let_def)

lemma entry_in_markets_with_data:
  assumes "(sm, e) \<in> set (supermarket_details pl m oc pm)"
  shows "sm \<in> set (markets_with_data pl m)"
proof -
  from assms have "sm \<in> set (columns m)" and "market_entry pl m oc pm sm = Some e"
    by (simp_all add: details_iff)
  then show ?thesis
    by (simp add: markets_with_data_def market_entry_SomeD(1))
qed

lemma entry_total_exclude:
  "entry_total pl m ''exclude'' sm = Some (sum_list (column_prices pl m sm))"
  by (simp add: entry_total_def column_prices_def)

lemma entry_total_average:
  "0 < missing_count pl m sm \<Longrightarrow>
   entry_total pl m ''average'' sm =
     add_penalty (sum_list (column_prices pl m sm)) (missing_count pl m sm) (avg_product_price pl m)"
  by (simp add: entry_total_def column_prices_def)

lemma entry_total_highest:
  "0 < missing_count pl m sm \<Longrightarrow>
   entry_total pl m ''highest'' sm =
     add_penalty (sum_list (column_prices pl m sm)) (missing_count pl m sm) (max_price pl m)"
  by (simp add: entry_total_def column_prices_def)

lemma entry_total_no_missing:
  "\<not> 0 < missing_count pl m sm \<Longrightarrow>
   entry_total pl m pm sm = Some (sum_list (column_prices pl m sm))"
  by (simp add: entry_total_def column_prices_def)

text \<open>The definitions to unfold when the model is run on a concrete basket and matrix.\<close>

lemmas model_defs =
  supermarket_details_def loop_step_def market_entry_def entry_total_def add_penalty_def
  avg_product_price_def max_price_def frame_mean_mean_def frame_max_max_def
  mean_skipna_def max_skipna_def skipna_def column_def dropna_def prices_def
  missing_count_def selected_products_def to_dict_def List.map_filter_simps
  column_prices_def selected_cells_def markets_with_data_def column_mean_def
  mean_of_column_means_def flattened_mean_def results_rows_def
  optimize_basket_returns_def sort_values_returns_def nan_last_le_def Let_def

section \<open>Baskets without price data\<close>

lemma loop_all_None:
  "\<forall>sm \<in> set cols. market_entry pl m oc pm sm = None \<Longrightarrow>
   foldl (loop_step pl m oc pm) d cols = d"
  by (induction cols arbitrary: d) (simp_all add: loop_step_None)

lemma no_data_details_empty:
  assumes "markets_with_data pl m = []"
  shows "supermarket_details pl m oc pm = []"
proof -
  have "market_entry pl m oc pm sm = None" if "sm \<in> set (columns m)" for sm
  proof -
    have "column_prices pl m sm = []"
      using assms that by (auto simp: markets_with_data_def filter_empty_conv)
    then show ?thesis
      using market_entry_Some_iff[of pl m oc pm sm] by (cases "market_entry pl m oc pm sm") auto
  qed
  then show ?thesis
    unfolding supermarket_details_def by (intro loop_all_None) simp
qed

lemma no_data_returns_empty:
  assumes "markets_with_data pl m = []"
  shows "optimize_basket_returns pl m oc pm out \<longleftrightarrow> out = ([], [])"
  using no_data_details_empty[OF assms, of oc pm]
  by (cases out) (auto simp: optimize_basket_returns_def results_rows_def)

lemma no_rows_no_data:
  assumes "set pl \<inter> fst ` set (rows m) = {}"
  shows "markets_with_data pl m = []"
proof -
  have "selected_products pl m = []"
    using assms by (auto simp: selected_products_def filter_empty_conv)
  then show ?thesis
    by (simp add: markets_with_data_def column_prices_def prices_def dropna_def
          List.map_filter_simps)
qed

section \<open>Which rows a basket selects\<close>

lemma selected_products_cong:
  assumes "set pl \<inter> fst ` set (rows m) = set pl' \<inter> fst ` set (rows m)"
  shows "selected_products pl m = selected_products pl' m"
  unfolding selected_products_def
proof (rule filter_cong[OF refl])
  fix r assume "r \<in> set (rows m)"
  then have "fst r \<in> fst ` set (rows m)" by simp
  with assms show "(fst r \<in> set pl) = (fst r \<in> set pl')" by blast
qed

lemma prices_cong:
  assumes "set pl \<inter> fst ` set (rows m) = set pl' \<inter> fst ` set (rows m)"
  shows "prices pl m sm = prices pl' m sm"
  by (simp add: prices_def selected_products_cong[OF assms])

lemma length_dropna:
  "length (dropna frame sm) = length (filter (\<lambda>r. snd r sm \<noteq> None) frame)"
  by (induction frame) (auto simp: dropna_def List.map_filter_simps split: option.splits)

lemma length_column_prices:
  "length (column_prices pl m sm) =
     length (filter (\<lambda>r. snd r sm \<noteq> None) (selected_products pl m))"
  by (simp add: column_prices_def prices_def length_dropna)

lemma selected_labels_distinct:
  "distinct (map fst (rows m)) \<Longrightarrow> distinct (map fst (selected_products pl m))"
  by (simp add: selected_products_def distinct_map_filter)

lemma selected_labels_subset: "set (map fst (selected_products pl m)) \<subseteq> set pl"
  by (auto simp: selected_products_def)

lemma length_selected_le:
  assumes "distinct (map fst (rows m))"
  shows "length (selected_products pl m) \<le> card (set pl)"
proof -
  have "length (selected_products pl m) = card (set (map fst (selected_products pl m)))"
    using distinct_card[OF selected_labels_distinct[OF assms, of pl]] by simp
  also have "\<dots> \<le> card (set pl)"
    by (rule card_mono[OF _ selected_labels_subset]) simp
  finally show ?thesis .
qed

lemma complete_market_has_every_product:
  assumes dist: "distinct (map fst (rows m))"
    and le: "missing_count pl m sm \<le> 0"
  shows "missing_count pl m sm = 0"
    and "\<forall>p \<in> set pl. \<exists>r \<in> set (rows m). fst r = p \<and> snd r sm \<noteq> None"
proof -
  let ?sel = "selected_products pl m"
  let ?av = "filter (\<lambda>r. snd r sm \<noteq> None) ?sel"
  have len: "length (prices pl m sm) = length ?av"
    by (simp add: prices_def length_dropna)
  have c1: "length ?av \<le> length ?sel" by simp
  have c2: "length ?sel \<le> card (set pl)" by (rule length_selected_le[OF dist])
  have c3: "card (set pl) \<le> length pl" by (rule card_length)
  have c0: "length pl \<le> length ?av" using le len by (simp add: missing_count_def)
  from c0 c1 c2 c3 have e1: "length ?av = length ?sel" and e2: "length ?sel = card (set pl)"
    and e3: "length ?av = length pl" by linarith+
  show "missing_count pl m sm = 0" using e3 len by (simp add: missing_count_def)
  have all_priced: "snd r sm \<noteq> None" if "r \<in> set ?sel" for r
  proof (rule ccontr)
    assume "\<not> snd r sm \<noteq> None"
    with that have "length ?av < length ?sel" by (intro length_filter_less) auto
    with e1 show False by simp
  qed
  have "card (set (map fst ?sel)) = card (set pl)"
    using distinct_card[OF selected_labels_distinct[OF dist, of pl]] e2 by simp
  then have labels: "set (map fst ?sel) = set pl"
    by (intro card_subset_eq selected_labels_subset) simp_all
  show "\<forall>p \<in> set pl. \<exists>r \<in> set (rows m). fst r = p \<and> snd r sm \<noteq> None"
  proof
    fix p assume "p \<in> set pl"
    with labels have "p \<in> fst ` set ?sel" by simp
    then obtain r where r: "r \<in> set ?sel" "fst r = p" by (auto simp: image_iff)
    then have "r \<in> set (rows m)" by (simp add: selected_products_def)
    with r all_priced[OF r(1)] show "\<exists>r \<in> set (rows m). fst r = p \<and> snd r sm \<noteq> None"
      by blast
  qed
qed

lemma prices_drop_absent:
  assumes "x \<notin> fst ` set (rows m)"
  shows "prices (pl1 @ x # pl2) m sm = prices (pl1 @ pl2) m sm"
  by (rule prices_cong) (use assms in auto)


lemma missing_count_extra:
  assumes "prices (pl1 @ x # pl2) m sm = prices (pl1 @ pl2) m sm"
  shows "missing_count (pl1 @ x # pl2) m sm = missing_count (pl1 @ pl2) m sm + 1"
  using assms by (simp add: missing_count_def)

section \<open>Prices that are not negative\<close>

lemma mem_column_prices:
  "v \<in> set (column_prices pl m sm) \<longleftrightarrow>
     (\<exists>r \<in> set (selected_products pl m). snd r sm = Some v)"
proof -
  have "v \<in> set (map snd (dropna frame sm)) \<longleftrightarrow> (\<exists>r \<in> set frame. snd r sm = Some v)"
    for frame :: "row list"
    by (induction frame) (auto simp: dropna_def List.map_filter_simps split: option.splits)
  then show ?thesis by (simp only: column_prices_def prices_def)
qed

lemma column_prices_nonneg:
  assumes "nonneg_prices m" and "sm \<in> set (columns m)" and "v \<in> set (column_prices pl m sm)"
  shows "0 \<le> v"
proof -
  from assms(3) obtain r where r: "r \<in> set (selected_products pl m)" and v: "snd r sm = Some v"
    by (auto simp: mem_column_prices)
  then have "r \<in> set (rows m)" by (simp add: selected_products_def)
  with assms(1,2) v show ?thesis
    by (auto simp: nonneg_prices_def split: option.splits)
qed

lemma selected_cells_nonneg:
  assumes "nonneg_prices m" and "v \<in> set (selected_cells pl m)"
  shows "0 \<le> v"
  using assms column_prices_nonneg[OF assms(1)] by (auto simp: selected_cells_def)

lemma column_mean_nonneg:
  assumes "nonneg_prices m" and "sm \<in> set (columns m)"
  shows "0 \<le> column_mean pl m sm"
proof -
  have "0 \<le> sum_list (column_prices pl m sm)"
    by (rule sum_list_nonneg) (rule column_prices_nonneg[OF assms])
  then show ?thesis by (simp add: column_mean_def)
qed

lemma mean_of_column_means_nonneg:
  assumes "nonneg_prices m"
  shows "0 \<le> mean_of_column_means pl m"
  unfolding mean_of_column_means_def
proof (intro divide_nonneg_nonneg sum_list_nonneg)
  fix x assume "x \<in> set (map (column_mean pl m) (markets_with_data pl m))"
  then obtain sm where "sm \<in> set (columns m)" and "x = column_mean pl m sm"
    by (auto simp: markets_with_data_def)
  then show "0 \<le> x" using column_mean_nonneg[OF assms] by simp
qed simp

lemma Max_selected_cells_nonneg:
  assumes "nonneg_prices m" and "selected_cells pl m \<noteq> []"
  shows "0 \<le> Max (set (selected_cells pl m))"
proof -
  have "Max (set (selected_cells pl m)) \<in> set (selected_cells pl m)"
    using assms(2) by (intro Max_in) simp_all
  then show ?thesis by (rule selected_cells_nonneg[OF assms(1)])
qed

lemma entry_for_other_method:
  assumes "(sm, e) \<in> set (supermarket_details pl m oc pm)"
  shows "\<exists>e'. (sm, e') \<in> set (supermarket_details pl m oc pm') \<and>
               total e' = entry_total pl m pm' sm \<and>
               missing_products e' = missing_products e"
proof -
  from assms have c: "sm \<in> set (columns m)" and me: "market_entry pl m oc pm sm = Some e"
    by (simp_all add: details_iff)
  have "\<exists>e'. market_entry pl m oc pm' sm = Some e'"
    using market_entry_SomeD(1,2)[OF me] by (simp add: market_entry_Some_iff)
  then obtain e' where me': "market_entry pl m oc pm' sm = Some e'" ..
  have "(sm, e') \<in> set (supermarket_details pl m oc pm')"
    using c me' by (simp add: details_iff)
  then show ?thesis
    using market_entry_SomeD(3,7)[OF me'] market_entry_SomeD(3)[OF me] by auto
qed

section \<open>The returned frame\<close>

lemma entry_total_defined:
  assumes "markets_with_data pl m \<noteq> []"
  shows "\<exists>t. entry_total pl m pm sm = Some t"
  using assms
  by (simp add: entry_total_def Let_def add_penalty_def avg_product_price_eq max_price_eq)

lemma details_total_defined:
  assumes "(sm, e) \<in> set (supermarket_details pl m oc pm)"
  shows "\<exists>t. total e = Some t"
proof -
  from assms have me: "market_entry pl m oc pm sm = Some e"
    by (simp add: details_iff)
  have "markets_with_data pl m \<noteq> []"
    using entry_in_markets_with_data[OF assms] by auto
  then show ?thesis
    using market_entry_SomeD(7)[OF me] entry_total_defined[of pl m pm sm] by simp
qed

lemma results_rows_total_defined:
  assumes "r \<in> set (results_rows pl m oc pm)"
  shows "\<exists>t. total_price r = Some t"
proof -
  from assms obtain sm e where "(sm, e) \<in> set (supermarket_details pl m oc pm)"
    and "total_price r = total e"
    by (auto simp: results_rows_def)
  then show ?thesis using details_total_defined by simp
qed



lemma sort_values_returns_exists:
  assumes "\<forall>r \<in> set df. \<exists>t. total_price r = Some t"
  shows "sort_values_returns df (sort_key (\<lambda>r. the (total_price r)) df)"
proof -
  let ?out = "sort_key (\<lambda>r. the (total_price r)) df"
  have "sorted (map (\<lambda>r. the (total_price r)) ?out)" by (rule sorted_sort_key)
  then have so: "sorted_wrt (\<lambda>r s. the (total_price r) \<le> the (total_price s)) ?out"
    by (simp add: sorted_map)
  have "sorted_wrt (\<lambda>r s. nan_last_le (total_price r) (total_price s)) ?out"
  proof (rule sorted_wrt_mono_rel[OF _ so])
    fix r s assume "r \<in> set ?out" "s \<in> set ?out"
      and le: "the (total_price r) \<le> the (total_price s)"
    then have "r \<in> set df" "s \<in> set df" by simp_all
    with assms obtain x y where "total_price r = Some x" "total_price s = Some y" by blast
    with le show "nan_last_le (total_price r) (total_price s)"
      by (simp add: nan_last_le_def)
  qed
  then show ?thesis by (simp add: sort_values_returns_def)
qed

lemma optimize_basket_returns_exists:
  "\<exists>out. optimize_basket_returns pl m oc pm out"
proof -
  let ?df = "results_rows pl m oc pm"
  have "sort_values_returns ?df (sort_key (\<lambda>r. the (total_price r)) ?df)"
    by (rule sort_values_returns_exists) (simp add: results_rows_total_defined)
  then have "optimize_basket_returns pl m oc pm
      (if length ?df > 0 then sort_key (\<lambda>r. the (total_price r)) ?df else ?df,
       supermarket_details pl m oc pm)"
    by (simp add: optimize_basket_returns_def Let_def)
  then show ?thesis ..
qed

section \<open>Properties of \<^verbatim>\<open>optimize_basket\<close>\<close>

text \<open>
  C6. With \<^verbatim>\<open>penalty_method = 'exclude'\<close>, for every basket, matrix and
  \<^verbatim>\<open>only_complete\<close>, every entry recorded for a supermarket has \<^verbatim>\<open>has_penalty\<close> false
  and a total that is exactly the sum of the prices that supermarket has among the selected
  rows: a missing product adds nothing.
\<close>

theorem exclude_total_no_penalty:
  assumes "(sm, e) \<in> set (supermarket_details pl m oc ''exclude'')"
  shows "has_penalty e = False \<and> total e = Some (sum_list (column_prices pl m sm))"
proof -
  from assms have me: "market_entry pl m oc ''exclude'' sm = Some e"
    by (simp add: details_iff)
  show ?thesis
    using market_entry_SomeD(6)[OF me] market_entry_SomeD(7)[OF me]
    by (simp add: entry_total_exclude)
qed

theorem exclude_total_no_penalty_witness:
  "(''B'', \<lparr> total = Some (6 / 5), available_products = 1, missing_products = 1,
             products = [(''Milk'', 6 / 5)], has_penalty = False \<rparr>)
     \<in> set (supermarket_details [''Milk'', ''Bread''] example_matrix False ''exclude'')
   \<and> column_prices [''Milk'', ''Bread''] example_matrix ''B'' = [6 / 5]
   \<and> total \<lparr> total = Some (6 / 5), available_products = 1, missing_products = 1,
             products = [(''Milk'', 6 / 5)], has_penalty = False \<rparr> = Some (sum_list [6 / 5])"
proof -
  let ?e = "\<lparr> total = Some (6 / 5), available_products = 1, missing_products = 1,
             products = [(''Milk'', 6 / 5)], has_penalty = False \<rparr>"
  have h: "(''B'', ?e) \<in> set (supermarket_details [''Milk'', ''Bread''] example_matrix False ''exclude'')"
    by (simp add: model_defs example_matrix_def)
  have c: "column_prices [''Milk'', ''Bread''] example_matrix ''B'' = [6 / 5]"
    by (simp add: model_defs example_matrix_def)
  show ?thesis
    using h c exclude_total_no_penalty[OF h] by simp
qed




text \<open>
  C4. Under \<^verbatim>\<open>'highest'\<close> with \<^verbatim>\<open>only_complete\<close> false, the total of an entry with
  missing products is the sum of the supermarket's own prices plus the number of missing
  products times the greatest defined cell of the selected rows, over all supermarkets. On
  the worked example that is 2.00 and B totals 1.20 + 2.00 = 3.20.
\<close>

theorem highest_penalty_global_max:
  assumes "(sm, e) \<in> set (supermarket_details pl m False ''highest'')"
    and "0 < missing_products e"
  shows "max_price pl m = Some (Max (set (selected_cells pl m))) \<and>
         total e = Some (sum_list (column_prices pl m sm)
                         + real_of_int (missing_products e) * Max (set (selected_cells pl m)))"
proof -
  from assms(1) have me: "market_entry pl m False ''highest'' sm = Some e"
    by (simp add: details_iff)
  have mc: "missing_products e = missing_count pl m sm"
    by (rule market_entry_SomeD(3)[OF me])
  have "markets_with_data pl m \<noteq> []"
    using entry_in_markets_with_data[OF assms(1)] by auto
  then have mx: "max_price pl m = Some (Max (set (selected_cells pl m)))"
    by (simp add: max_price_eq)
  have "total e = entry_total pl m ''highest'' sm"
    by (rule market_entry_SomeD(7)[OF me])
  also have "\<dots> = add_penalty (sum_list (column_prices pl m sm)) (missing_count pl m sm)
                      (max_price pl m)"
    using assms(2) mc by (simp add: entry_total_highest)
  finally show ?thesis using mx mc by (simp add: add_penalty_def)
qed

theorem highest_penalty_global_max_witness:
  "(''B'', \<lparr> total = Some (16 / 5), available_products = 1, missing_products = 1,
             products = [(''Milk'', 6 / 5)], has_penalty = True \<rparr>)
     \<in> set (supermarket_details [''Milk'', ''Bread''] example_matrix False ''highest'')
   \<and> selected_cells [''Milk'', ''Bread''] example_matrix = [1, 2, 6 / 5]
   \<and> max_price [''Milk'', ''Bread''] example_matrix = Some 2
   \<and> Some (16 / 5) =
       Some (sum_list (column_prices [''Milk'', ''Bread''] example_matrix ''B'')
             + real_of_int 1 * Max (set (selected_cells [''Milk'', ''Bread''] example_matrix)))"
proof -
  let ?e = "\<lparr> total = Some (16 / 5), available_products = 1, missing_products = 1,
             products = [(''Milk'', 6 / 5)], has_penalty = True \<rparr>"
  have h: "(''B'', ?e) \<in> set (supermarket_details [''Milk'', ''Bread''] example_matrix False ''highest'')"
    by (simp add: model_defs example_matrix_def)
  have p: "0 < missing_products ?e" by simp
  have v: "selected_cells [''Milk'', ''Bread''] example_matrix = [1, 2, 6 / 5]"
    by (simp add: model_defs example_matrix_def)
  show ?thesis
    using h v highest_penalty_global_max[OF h p] by simp
qed

text \<open>
  C3. The claim: when the penalty method is \<^verbatim>\<open>'average'\<close> or \<^verbatim>\<open>'highest'\<close>,
  \<^verbatim>\<open>only_complete\<close> is false and the selected rows hold no price at all, the function
  raises a condition of its own, distinct from its other outcomes.

  The function has no such outcome. With the basket Eggs, a product that is listed and sold
  nowhere, both aggregates are NaN, every supermarket is skipped at line 93 and the function
  returns the empty frame and the empty dict: the very value it returns for an empty basket.
\<close>

theorem undefined_penalty_base_counterexample:
  "selected_products [''Eggs''] tie_matrix \<noteq> []
   \<and> selected_cells [''Eggs''] tie_matrix = []
   \<and> avg_product_price [''Eggs''] tie_matrix = None
   \<and> max_price [''Eggs''] tie_matrix = None
   \<and> optimize_basket_returns [''Eggs''] tie_matrix False ''average'' ([], [])
   \<and> optimize_basket_returns [''Eggs''] tie_matrix False ''highest'' ([], [])
   \<and> optimize_basket_returns [] tie_matrix False ''average'' ([], [])"
  by (simp add: model_defs tie_matrix_def)

text \<open>
  C3, as the code has it: whenever the selected rows hold no price at all, whatever the
  penalty method and \<^verbatim>\<open>only_complete\<close>, both penalty bases are NaN, and the function
  returns the empty frame and the empty dict and nothing else. No total is computed, so the
  NaN enters none.
\<close>

theorem no_price_data_returns_empty:
  assumes "selected_cells pl m = []"
  shows "avg_product_price pl m = None \<and> max_price pl m = None \<and>
         (optimize_basket_returns pl m oc pm out \<longleftrightarrow> out = ([], []))"
proof -
  have nd: "markets_with_data pl m = []"
    using assms by (simp add: selected_cells_empty_iff)
  show ?thesis
    using nd no_data_returns_empty[OF nd, of oc pm out]
    by (simp add: avg_product_price_eq max_price_eq)
qed

theorem no_price_data_returns_empty_witness:
  "selected_cells [''Eggs''] tie_matrix = []
   \<and> avg_product_price [''Eggs''] tie_matrix = None
   \<and> max_price [''Eggs''] tie_matrix = None
   \<and> optimize_basket_returns [''Eggs''] tie_matrix False ''average'' ([], [])"
proof -
  have h: "selected_cells [''Eggs''] tie_matrix = []"
    by (simp add: model_defs tie_matrix_def)
  show ?thesis
    using h no_price_data_returns_empty[OF h, of False "''average''" "([], [])"] by simp
qed

text \<open>
  C8. For every matrix, \<^verbatim>\<open>only_complete\<close> and penalty method, when the basket is empty
  or none of its names is the label of a row, the function returns, and what it returns is
  the empty frame with the empty dict. The model has no raising branch because the source
  has none: \<^verbatim>\<open>isin\<close>, \<^verbatim>\<open>mean\<close>, \<^verbatim>\<open>max\<close>, \<^verbatim>\<open>dropna\<close> and \<^verbatim>\<open>sum\<close> accept an
  empty selection.
\<close>

theorem unmatched_basket_returns_empty:
  assumes "set pl \<inter> fst ` set (rows m) = {}"
  shows "optimize_basket_returns pl m oc pm out \<longleftrightarrow> out = ([], [])"
  using no_data_returns_empty[OF no_rows_no_data[OF assms]] .

theorem unmatched_basket_returns_empty_witness:
  "set [] \<inter> fst ` set (rows example_matrix) = {}
   \<and> optimize_basket_returns [] example_matrix False ''average'' ([], [])
   \<and> set [''Eggs''] \<inter> fst ` set (rows example_matrix) = {}
   \<and> optimize_basket_returns [''Eggs''] example_matrix True ''exclude'' ([], [])"
proof -
  have h1: "set [] \<inter> fst ` set (rows example_matrix) = {}" by simp
  have h2: "set [''Eggs''] \<inter> fst ` set (rows example_matrix) = {}"
    by (simp add: example_matrix_def)
  show ?thesis
    using h1 h2
      unmatched_basket_returns_empty[OF h1, of False "''average''" "([], [])"]
      unmatched_basket_returns_empty[OF h2, of True "''exclude''" "([], [])"]
    by simp
qed

text \<open>
  C5. With \<^verbatim>\<open>only_complete\<close> true, for every basket, penalty method and matrix whose
  row labels are unique (the invariant of the specification's price matrix), an entry is
  recorded for a supermarket only if every product of the basket has a row with a price for
  that supermarket, and every entry has \<^verbatim>\<open>missing_products\<close> equal to 0. On the worked
  example only A is recorded, with total 3.00.
\<close>

theorem only_complete_no_missing:
  assumes "distinct (map fst (rows m))"
    and "(sm, e) \<in> set (supermarket_details pl m True pm)"
  shows "missing_products e = 0 \<and>
         (\<forall>p \<in> set pl. \<exists>r \<in> set (rows m). fst r = p \<and> snd r sm \<noteq> None)"
proof -
  from assms(2) have me: "market_entry pl m True pm sm = Some e"
    by (simp add: details_iff)
  have le: "missing_count pl m sm \<le> 0"
    using market_entry_SomeD(2)[OF me] by simp
  show ?thesis
    using complete_market_has_every_product[OF assms(1) le] market_entry_SomeD(3)[OF me]
    by simp
qed

theorem only_complete_no_missing_witness:
  "distinct (map fst (rows example_matrix))
   \<and> supermarket_details [''Milk'', ''Bread''] example_matrix True ''exclude''
       = [(''A'', \<lparr> total = Some 3, available_products = 2, missing_products = 0,
                    products = [(''Milk'', 1), (''Bread'', 2)], has_penalty = False \<rparr>)]
   \<and> (\<exists>r \<in> set (rows example_matrix). fst r = ''Milk'' \<and> snd r ''A'' \<noteq> None)
   \<and> (\<exists>r \<in> set (rows example_matrix). fst r = ''Bread'' \<and> snd r ''A'' \<noteq> None)"
proof -
  let ?e = "\<lparr> total = Some 3, available_products = 2, missing_products = 0,
              products = [(''Milk'', 1), (''Bread'', 2)], has_penalty = False \<rparr>"
  have d: "distinct (map fst (rows example_matrix))"
    by (simp add: example_matrix_def)
  have v: "supermarket_details [''Milk'', ''Bread''] example_matrix True ''exclude''
             = [(''A'', ?e)]"
    by (simp add: model_defs example_matrix_def)
  have h: "(''A'', ?e) \<in> set (supermarket_details [''Milk'', ''Bread''] example_matrix True ''exclude'')"
    by (simp add: v)
  show ?thesis
    using d v only_complete_no_missing[OF d h] by simp
qed

text \<open>
  C9. For every entry recorded for a supermarket, \<^verbatim>\<open>missing_products\<close> is the length of
  the basket minus the number of prices the supermarket has among the selected rows, and
  \<^verbatim>\<open>available_products\<close> is that number of prices. A basket name that labels no row
  selects nothing: compared with the basket without it, the available count is the same and
  the missing count is one more, for every supermarket. The function has no raising branch.
\<close>

theorem missing_count_formula:
  assumes "(sm, e) \<in> set (supermarket_details pl m oc pm)"
  shows "available_products e = int (length (column_prices pl m sm)) \<and>
         missing_products e = int (length pl) - int (length (column_prices pl m sm)) \<and>
         (\<forall>pl1 x pl2. pl = pl1 @ x # pl2 \<and> x \<notin> fst ` set (rows m) \<longrightarrow>
            available_products e = int (length (column_prices (pl1 @ pl2) m sm)) \<and>
            missing_products e = missing_count (pl1 @ pl2) m sm + 1)"
proof -
  from assms have me: "market_entry pl m oc pm sm = Some e"
    by (simp add: details_iff)
  have av: "available_products e = int (length (column_prices pl m sm))"
    by (rule market_entry_SomeD(4)[OF me])
  have mc: "missing_products e = missing_count pl m sm"
    by (rule market_entry_SomeD(3)[OF me])
  have "available_products e = int (length (column_prices (pl1 @ pl2) m sm)) \<and>
        missing_products e = missing_count (pl1 @ pl2) m sm + 1"
    if "pl = pl1 @ x # pl2" and "x \<notin> fst ` set (rows m)" for pl1 x pl2
    using that av mc prices_drop_absent[OF that(2), of pl1 pl2 sm]
    by (simp add: column_prices_def missing_count_extra)
  then show ?thesis
    using av mc by (simp add: missing_count_def column_prices_def)
qed

theorem missing_count_formula_witness:
  "(''A'', \<lparr> total = Some 1, available_products = 1, missing_products = 1,
             products = [(''Milk'', 1)], has_penalty = False \<rparr>)
     \<in> set (supermarket_details [''Milk'', ''Eggs''] example_matrix False ''exclude'')
   \<and> ''Eggs'' \<notin> fst ` set (rows example_matrix)
   \<and> column_prices [''Milk'', ''Eggs''] example_matrix ''A'' = [1]
   \<and> column_prices [''Milk''] example_matrix ''A'' = [1]
   \<and> missing_count [''Milk''] example_matrix ''A'' + 1 = 1"
proof -
  let ?e = "\<lparr> total = Some 1, available_products = 1, missing_products = 1,
             products = [(''Milk'', 1)], has_penalty = False \<rparr>"
  have h: "(''A'', ?e) \<in> set (supermarket_details [''Milk'', ''Eggs''] example_matrix False ''exclude'')"
    by (simp add: model_defs example_matrix_def)
  have a: "''Eggs'' \<notin> fst ` set (rows example_matrix)"
    by (simp add: example_matrix_def)
  have c: "column_prices [''Milk'', ''Eggs''] example_matrix ''A'' = [1]"
    "column_prices [''Milk''] example_matrix ''A'' = [1]"
    by (simp_all add: model_defs example_matrix_def)
  have s: "[''Milk'', ''Eggs''] = [''Milk''] @ ''Eggs'' # []" by simp
  from missing_count_formula[OF h] a s
  have "missing_products ?e = missing_count ([''Milk''] @ []) example_matrix ''A'' + 1"
    by blast
  then show ?thesis using h a c by simp
qed



text \<open>
  C7. For every matrix whose prices are not negative, every basket and every supermarket
  that has an entry with missing products, the supermarket also has an entry under
  \<^verbatim>\<open>'average'\<close> and under \<^verbatim>\<open>'highest'\<close> (the penalty method does not decide who is
  recorded), all three totals are defined numbers, and the totals under \<^verbatim>\<open>'average'\<close>
  and \<^verbatim>\<open>'highest'\<close> are at least the total under \<^verbatim>\<open>'exclude'\<close>.
\<close>

theorem penalties_not_below_exclude:
  assumes "nonneg_prices m"
    and "(sm, ex) \<in> set (supermarket_details pl m oc ''exclude'')"
    and "0 < missing_products ex"
  shows "\<exists>ea eh tx ta th.
           (sm, ea) \<in> set (supermarket_details pl m oc ''average'') \<and>
           (sm, eh) \<in> set (supermarket_details pl m oc ''highest'') \<and>
           total ex = Some tx \<and> total ea = Some ta \<and> total eh = Some th \<and>
           tx \<le> ta \<and> tx \<le> th"
proof -
  let ?s = "sum_list (column_prices pl m sm)"
  let ?k = "real_of_int (missing_count pl m sm)"
  from assms(2) have me: "market_entry pl m oc ''exclude'' sm = Some ex"
    by (simp add: details_iff)
  have mc: "0 < missing_count pl m sm"
    using assms(3) market_entry_SomeD(3)[OF me] by simp
  have tx: "total ex = Some ?s"
    using market_entry_SomeD(7)[OF me] by (simp add: entry_total_exclude)
  have data: "markets_with_data pl m \<noteq> []"
    using entry_in_markets_with_data[OF assms(2)] by auto
  then have cells: "selected_cells pl m \<noteq> []" by (simp add: selected_cells_empty_iff)
  obtain ea where ea: "(sm, ea) \<in> set (supermarket_details pl m oc ''average'')"
    and tea: "total ea = entry_total pl m ''average'' sm"
    using entry_for_other_method[OF assms(2), of "''average''"] by blast
  obtain eh where eh: "(sm, eh) \<in> set (supermarket_details pl m oc ''highest'')"
    and teh: "total eh = entry_total pl m ''highest'' sm"
    using entry_for_other_method[OF assms(2), of "''highest''"] by blast
  have ta: "total ea = Some (?s + ?k * mean_of_column_means pl m)"
    using tea mc data by (simp add: entry_total_average avg_product_price_eq add_penalty_def)
  have th: "total eh = Some (?s + ?k * Max (set (selected_cells pl m)))"
    using teh mc data by (simp add: entry_total_highest max_price_eq add_penalty_def)
  have k: "0 \<le> ?k" using mc by simp
  have la: "?s \<le> ?s + ?k * mean_of_column_means pl m"
    using mult_nonneg_nonneg[OF k mean_of_column_means_nonneg[OF assms(1), of pl]] by simp
  have lh: "?s \<le> ?s + ?k * Max (set (selected_cells pl m))"
    using mult_nonneg_nonneg[OF k Max_selected_cells_nonneg[OF assms(1) cells]] by simp
  show ?thesis using ea eh tx ta th la lh by blast
qed

theorem penalties_not_below_exclude_witness:
  "nonneg_prices example_matrix
   \<and> (''B'', \<lparr> total = Some (6 / 5), available_products = 1, missing_products = 1,
               products = [(''Milk'', 6 / 5)], has_penalty = False \<rparr>)
       \<in> set (supermarket_details [''Milk'', ''Bread''] example_matrix False ''exclude'')
   \<and> (\<exists>ea eh tx ta th.
         (''B'', ea) \<in> set (supermarket_details [''Milk'', ''Bread''] example_matrix False ''average'') \<and>
         (''B'', eh) \<in> set (supermarket_details [''Milk'', ''Bread''] example_matrix False ''highest'') \<and>
         Some (6 / 5) = Some tx \<and> total ea = Some ta \<and> total eh = Some th \<and>
         tx \<le> ta \<and> tx \<le> th)"
proof -
  let ?e = "\<lparr> total = Some (6 / 5), available_products = 1, missing_products = 1,
              products = [(''Milk'', 6 / 5)], has_penalty = False \<rparr>"
  have n: "nonneg_prices example_matrix"
    by (simp add: nonneg_prices_def example_matrix_def)
  have h: "(''B'', ?e) \<in> set (supermarket_details [''Milk'', ''Bread''] example_matrix False ''exclude'')"
    by (simp add: model_defs example_matrix_def)
  have p: "0 < missing_products ?e" by simp
  show ?thesis
    using n h penalties_not_below_exclude[OF n h p] by simp
qed




end
